theory Spec2Isabelle
  imports Complex_Main
begin

section \<open>Values exchanged on the bus\<close>

text \<open>
  Both agents of \<^verbatim>\<open>src/ContractNet\<close> read every inbound message with
  \<^verbatim>\<open>json.loads(msg.payload.decode())\<close> and write every outbound one with
  \<^verbatim>\<open>json.dumps\<close> of a dict. The values they handle are therefore JSON values as
  Python holds them: \<^verbatim>\<open>None\<close>, booleans, numbers, strings, lists and dicts with string
  keys.

  A number that \<^verbatim>\<open>json.loads\<close> returns is an \<^verbatim>\<open>int\<close>, a finite \<^verbatim>\<open>float\<close>, or one
  of the floats \<^verbatim>\<open>inf\<close>, \<^verbatim>\<open>-inf\<close> and \<^verbatim>\<open>nan\<close> (the texts \<^verbatim>\<open>Infinity\<close>,
  \<^verbatim>\<open>-Infinity\<close> and \<^verbatim>\<open>NaN\<close>, which it accepts). An \<^verbatim>\<open>int\<close> or a finite
  \<^verbatim>\<open>float\<close> is modelled by the rational it denotes: Python compares the two exactly.
\<close>

datatype number = Fin rat | PosInf | NegInf | NaN

text \<open>Python's \<^verbatim>\<open><\<close> and \<^verbatim>\<open>==\<close> on numbers: both are false whenever a side is
  \<^verbatim>\<open>nan\<close>.\<close>

fun num_lt :: "number \<Rightarrow> number \<Rightarrow> bool" where
  "num_lt NaN y = False"
| "num_lt x NaN = False"
| "num_lt (Fin a) (Fin b) = (a < b)"
| "num_lt (Fin a) PosInf = True"
| "num_lt (Fin a) NegInf = False"
| "num_lt PosInf y = False"
| "num_lt NegInf NegInf = False"
| "num_lt NegInf y = True"

fun num_eq :: "number \<Rightarrow> number \<Rightarrow> bool" where
  "num_eq (Fin a) (Fin b) = (a = b)"
| "num_eq PosInf PosInf = True"
| "num_eq NegInf NegInf = True"
| "num_eq x y = False"

text \<open>A dict is an association list with one pair for each key (\<^verbatim>\<open>json.loads\<close> keeps
  one entry for a key), read with \<open>map_of\<close>.\<close>

datatype json =
    JNull
  | JBool bool
  | JNum number
  | JStr string
  | JArr "json list"
  | JObj "(string \<times> json) list"

text \<open>The exceptions that leave a handler of the two agents (those the handlers catch
  themselves, \<^verbatim>\<open>JSONDecodeError\<close> and \<^verbatim>\<open>KeyError\<close>, are branches of the handlers).\<close>

datatype exn = UnicodeDecodeError | ValueError | RecursionError | AttributeError | TypeError

text \<open>
  The outcomes of \<^verbatim>\<open>json.loads(msg.payload.decode())\<close>, which is library code:
  \<^item> \<open>Undecodable\<close>: the bytes are not UTF-8, \<^verbatim>\<open>decode\<close> raises
    \<^verbatim>\<open>UnicodeDecodeError\<close>;
  \<^item> \<open>NotJson\<close>: the text is not JSON, \<^verbatim>\<open>loads\<close> raises \<^verbatim>\<open>JSONDecodeError\<close>;
  \<^item> \<open>DigitLimit\<close>: the text holds an integer with more digits than Python converts,
    \<^verbatim>\<open>loads\<close> raises a plain \<^verbatim>\<open>ValueError\<close>;
  \<^item> \<open>TooDeep\<close>: the text is nested too deeply, \<^verbatim>\<open>loads\<close> raises
    \<^verbatim>\<open>RecursionError\<close>;
  \<^item> \<open>Json v\<close>: the value \<open>v\<close> comes back.
\<close>

datatype payload = Undecodable | NotJson | DigitLimit | TooDeep | Json json

text \<open>A bool is an int in Python, so it takes part in numeric comparison.\<close>

fun num_of :: "json \<Rightarrow> number option" where
  "num_of (JBool b) = Some (Fin (of_bool b))"
| "num_of (JNum x) = Some x"
| "num_of _ = None"

text \<open>
  Python's \<^verbatim>\<open>==\<close> on these values; it never raises. The items of two lists and the
  values of two dicts are compared with the identity shortcut (\<^verbatim>\<open>x is y or x == y\<close>).
  Every \<^verbatim>\<open>nan\<close> that \<^verbatim>\<open>json.loads\<close> returns is the one object \<^verbatim>\<open>json.decoder.NaN\<close>,
  so as an item \<^verbatim>\<open>nan\<close> is the same as \<^verbatim>\<open>nan\<close>, while \<^verbatim>\<open>nan == nan\<close> is false.
\<close>

fun py_eq :: "json \<Rightarrow> json \<Rightarrow> bool" where
  "py_eq JNull JNull = True"
| "py_eq (JBool a) (JBool b) = (a = b)"
| "py_eq (JBool a) (JNum y) = num_eq (Fin (of_bool a)) y"
| "py_eq (JNum x) (JBool b) = num_eq x (Fin (of_bool b))"
| "py_eq (JNum x) (JNum y) = num_eq x y"
| "py_eq (JStr s) (JStr t) = (s = t)"
| "py_eq (JArr xs) (JArr ys) =
     list_all2 (\<lambda>x y. (x = JNum NaN \<and> y = JNum NaN) \<or> py_eq x y) xs ys"
| "py_eq (JObj m) (JObj n) =
     (set (map fst m) = set (map fst n) \<and>
      list_all (\<lambda>(k, v). case map_of n k of
                  None \<Rightarrow> False
                | Some w \<Rightarrow> (v = JNum NaN \<and> w = JNum NaN) \<or> py_eq v w) m)"
| "py_eq _ _ = False"

definition py_same_item :: "json \<Rightarrow> json \<Rightarrow> bool" where
  "py_same_item x y = ((x = JNum NaN \<and> y = JNum NaN) \<or> py_eq x y)"

text \<open>Strings compare by code point, lexicographically.\<close>

fun str_lt :: "string \<Rightarrow> string \<Rightarrow> bool" where
  "str_lt [] [] = False"
| "str_lt [] (d # ds) = True"
| "str_lt (c # cs) [] = False"
| "str_lt (c # cs) (d # ds) =
     (if c = d then str_lt cs ds else (of_char c :: nat) < of_char d)"

text \<open>
  Python's \<^verbatim>\<open><\<close>: \<open>None\<close> is the \<^verbatim>\<open>TypeError\<close> of an unsupported comparison
  (\<^verbatim>\<open>None\<close> or a dict on either side, or operands of different kinds). Lists compare
  at the first position where their items are not the same.
\<close>

fun py_lt :: "json \<Rightarrow> json \<Rightarrow> bool option"
  and py_lt_list :: "json list \<Rightarrow> json list \<Rightarrow> bool option" where
  "py_lt (JBool a) (JBool b) = Some ((of_bool a :: rat) < of_bool b)"
| "py_lt (JBool a) (JNum y) = Some (num_lt (Fin (of_bool a)) y)"
| "py_lt (JNum x) (JBool b) = Some (num_lt x (Fin (of_bool b)))"
| "py_lt (JNum x) (JNum y) = Some (num_lt x y)"
| "py_lt (JStr s) (JStr t) = Some (str_lt s t)"
| "py_lt (JArr xs) (JArr ys) = py_lt_list xs ys"
| "py_lt _ _ = None"
| "py_lt_list [] [] = Some False"
| "py_lt_list [] (y # ys) = Some True"
| "py_lt_list (x # xs) [] = Some False"
| "py_lt_list (x # xs) (y # ys) =
     (if py_same_item x y then py_lt_list xs ys else py_lt x y)"

text \<open>\<^verbatim>\<open>data.get(k)\<close> gives \<^verbatim>\<open>None\<close> for a missing key; \<^verbatim>\<open>data.get(k, d)\<close> gives \<open>d\<close>.\<close>

definition dict_get :: "(string \<times> json) list \<Rightarrow> string \<Rightarrow> json" where
  "dict_get data k = (case map_of data k of None \<Rightarrow> JNull | Some v \<Rightarrow> v)"

definition dict_get_default :: "(string \<times> json) list \<Rightarrow> string \<Rightarrow> json \<Rightarrow> json" where
  "dict_get_default data k d = (case map_of data k of None \<Rightarrow> d | Some v \<Rightarrow> v)"

text \<open>
  A topic is one of the five f-strings of the source; the constructor's argument is the
  value that the f-string interpolates. The text of a reason is a string literal or an
  f-string (a literal followed by an interpolated value).
\<close>

datatype topic =
    TopicCfp
  | TopicBid json
  | TopicAward json
  | TopicReject json
  | TopicComplete json

datatype reason_text = Str string | FStr string json

text \<open>
  The six dicts that the agents give to \<^verbatim>\<open>json.dumps\<close>, one constructor for each
  value of the \<^verbatim>\<open>'type'\<close> entry, the other entries in the order of the source:
  \<^item> \<open>Cfp\<close>: supervisor_id, job_id, job_type, description, deadline, timestamp;
  \<^item> \<open>BidMsg\<close>: machine_id, job_id, proposed_time, timestamp;
  \<^item> \<open>Rejection\<close>: machine_id, job_id, reason, timestamp;
  \<^item> \<open>Award\<close>: supervisor_id, job_id, job_type, machine_id, timestamp;
  \<^item> \<open>Reject\<close>: supervisor_id, job_id, reason, timestamp;
  \<^item> \<open>Completion\<close>: machine_id, job_id, job_type, execution_time, timestamp.
\<close>

datatype message =
    Cfp string string string string rat rat
  | BidMsg string json rat rat
  | Rejection string json reason_text rat
  | Award string string string json rat
  | Reject string string reason_text rat
  | Completion string json json rat rat

fun is_award :: "topic \<times> message \<Rightarrow> bool" where
  "is_award (tp, Award sid jid jt mid ts) = True"
| "is_award _ = False"

text \<open>
  The bus client (\<^verbatim>\<open>self.client\<close>, paho's \<^verbatim>\<open>mqtt.Client\<close>) is outside the repository.
  An agent keeps the record of its \<^verbatim>\<open>self.client.publish\<close> calls, oldest first, and
  the client is a parameter of the agent: the function that says, for the topic of a
  call, which exception \<^verbatim>\<open>publish\<close> raises, \<open>None\<close> when it returns. (paho raises
  \<^verbatim>\<open>ValueError\<close> for a topic that holds \<^verbatim>\<open>+\<close> or \<^verbatim>\<open>#\<close>.) A call that raises is in
  the record, as its last entry: the statements after it are not run.
\<close>

type_synonym bus_client = "topic \<Rightarrow> exn option"


text \<open>Publishing a list of messages one after the other: the calls made, and the
  exception that ended them, if any.\<close>

fun publish_all ::
  "bus_client \<Rightarrow> (topic \<times> message) list \<Rightarrow> (topic \<times> message) list \<times> exn option" where
  "publish_all c [] = ([], None)"
| "publish_all c (call # rest) =
     (case c (fst call) of
        Some e \<Rightarrow> ([call], Some e)
      | None \<Rightarrow> (case publish_all c rest of (made, r) \<Rightarrow> (call # made, r)))"


section \<open>The Supervisor (\<^verbatim>\<open>supervisor.py\<close>)\<close>

record Job =
  job_id :: string
  job_type :: string
  description :: string
  timestamp :: rat

text \<open>
  The dataclass \<^verbatim>\<open>Bid\<close>. Its fields are annotated \<^verbatim>\<open>str\<close> and \<^verbatim>\<open>float\<close>, but
  \<^verbatim>\<open>_on_message\<close> fills them with whatever the payload holds, unchecked, so each
  field is a JSON value.
\<close>

record Bid =
  bid_machine_id :: json
  bid_job_id :: json
  proposed_time :: json
  bid_timestamp :: json

text \<open>The fields of \<^verbatim>\<open>Supervisor\<close> that the auction reads or writes; \<open>sent\<close> is the
  record of its \<^verbatim>\<open>self.client.publish\<close> calls, \<open>supervisor_client\<close> its bus client.\<close>

record supervisor =
  supervisor_id :: string
  deadline :: rat
  current_job :: "Job option"
  bids :: "Bid list"
  collecting_bids :: bool
  jobs_created :: nat
  jobs_allocated :: nat
  jobs_failed :: nat
  sent :: "(topic \<times> message) list"
  supervisor_client :: bus_client

text \<open>
  \<^verbatim>\<open>Supervisor._on_message\<close> (lines 89-122). The argument \<open>now\<close> is what
  \<^verbatim>\<open>time.time()\<close> returns. The result is the state the handler leaves and the
  exception that escapes it, if any. The \<^verbatim>\<open>except (json.JSONDecodeError, KeyError)\<close>
  clause catches the \<^verbatim>\<open>JSONDecodeError\<close> of \<^verbatim>\<open>loads\<close> and the \<^verbatim>\<open>KeyError\<close> of a
  missing key in \<^verbatim>\<open>data[...]\<close>. It does not catch the other exceptions of
  \<^verbatim>\<open>json.loads(msg.payload.decode())\<close>, nor the \<^verbatim>\<open>AttributeError\<close> of
  \<^verbatim>\<open>data.get\<close> on a value that is not a dict and of \<^verbatim>\<open>self.current_job.job_id\<close> on
  \<^verbatim>\<open>None\<close>.
\<close>

definition supervisor_on_message ::
  "supervisor \<Rightarrow> payload \<Rightarrow> rat \<Rightarrow> supervisor \<times> exn option" where
  "supervisor_on_message s p now =
     (if \<not> collecting_bids s then (s, None)
      else case p of
        Undecodable \<Rightarrow> (s, Some UnicodeDecodeError)
      | NotJson \<Rightarrow> (s, None)
      | DigitLimit \<Rightarrow> (s, Some ValueError)
      | TooDeep \<Rightarrow> (s, Some RecursionError)
      | Json (JObj data) \<Rightarrow>
          (case current_job s of
             None \<Rightarrow> (s, Some AttributeError)
           | Some j \<Rightarrow>
               if \<not> py_eq (dict_get data ''job_id'') (JStr (job_id j)) then (s, None)
               else if py_eq (dict_get data ''type'') (JStr ''rejection'') then (s, None)
               else
                 (case map_of data ''machine_id'' of
                    None \<Rightarrow> (s, None)
                  | Some mid \<Rightarrow>
                 (case map_of data ''job_id'' of
                    None \<Rightarrow> (s, None)
                  | Some jid \<Rightarrow>
                 (case map_of data ''proposed_time'' of
                    None \<Rightarrow> (s, None)
                  | Some pt \<Rightarrow>
                      (s\<lparr>bids := bids s @
                           [\<lparr>bid_machine_id = mid, bid_job_id = jid, proposed_time = pt,
                             bid_timestamp =
                               dict_get_default data ''timestamp'' (JNum (Fin now))\<rparr>]\<rparr>,
                       None)))))
      | Json _ \<Rightarrow> (s, Some AttributeError))"

text \<open>\<^verbatim>\<open>_send_cfp\<close> (lines 139-153). The topic is the literal \<^verbatim>\<open>jobs/cfp\<close>, which
  holds no \<^verbatim>\<open>+\<close> or \<^verbatim>\<open>#\<close>: the client's check of the topic cannot fail on it.\<close>

definition send_cfp :: "supervisor \<Rightarrow> Job \<Rightarrow> rat \<Rightarrow> supervisor" where
  "send_cfp s job now =
     s\<lparr>sent := sent s @
        [(TopicCfp,
          Cfp (supervisor_id s) (job_id job) (job_type job) (description job) (deadline s) now)]\<rparr>"

text \<open>
  Python's \<^verbatim>\<open>min(iterable, key=f)\<close> on a non-empty list: the first item is the
  candidate, and a later item replaces it only when its key is strictly smaller
  (\<^verbatim>\<open><\<close>). A comparison that raises ends the call with that \<^verbatim>\<open>TypeError\<close>.
\<close>

fun min_from :: "('a \<Rightarrow> json) \<Rightarrow> 'a \<Rightarrow> 'a list \<Rightarrow> exn + 'a" where
  "min_from key best [] = Inr best"
| "min_from key best (x # xs) =
     (case py_lt (key x) (key best) of
        None \<Rightarrow> Inl TypeError
      | Some True \<Rightarrow> min_from key x xs
      | Some False \<Rightarrow> min_from key best xs)"

text \<open>\<^verbatim>\<open>_select_winner\<close> (lines 155-161).\<close>

definition select_winner :: "supervisor \<Rightarrow> exn + Bid option" where
  "select_winner s =
     (case bids s of
        [] \<Rightarrow> Inr None
      | b # bs \<Rightarrow> (case min_from proposed_time b bs of Inl e \<Rightarrow> Inl e | Inr w \<Rightarrow> Inr (Some w)))"

text \<open>
  \<^verbatim>\<open>_send_award\<close> (lines 163-191): the Award, then a Reject for every collected bid
  whose machine id is not the winner's, each on a topic built from the machine id of a
  bid. The first \<^verbatim>\<open>publish\<close> that raises ends the function with its exception.
\<close>

definition send_award :: "supervisor \<Rightarrow> Bid \<Rightarrow> Job \<Rightarrow> rat \<Rightarrow> supervisor \<times> exn option" where
  "send_award s winner job now =
     (case publish_all (supervisor_client s)
        ((TopicAward (bid_machine_id winner),
          Award (supervisor_id s) (job_id job) (job_type job) (bid_machine_id winner) now) #
         map (\<lambda>b. (TopicReject (bid_machine_id b),
                   Reject (supervisor_id s) (job_id job) (Str ''Another machine was selected'') now))
           (filter (\<lambda>b. \<not> py_eq (bid_machine_id b) (bid_machine_id winner)) (bids s)))
      of (made, r) \<Rightarrow> (s\<lparr>sent := sent s @ made\<rparr>, r))"

text \<open>
  \<^verbatim>\<open>_run_auction\<close> (lines 193-219): \<open>open_auction\<close> is the part before
  \<^verbatim>\<open>time.sleep(self.deadline)\<close>, \<open>seal\<close> the assignment that follows the sleep
  (line 205), \<open>evaluate\<close> the rest. A \<^verbatim>\<open>Bid\<close> object is always true in Python, so
  \<^verbatim>\<open>if winner:\<close> tests for \<^verbatim>\<open>None\<close>. When \<^verbatim>\<open>_select_winner\<close> or
  \<^verbatim>\<open>_send_award\<close> raises, the rest of the function is not run.
\<close>

definition open_auction :: "supervisor \<Rightarrow> Job \<Rightarrow> rat \<Rightarrow> supervisor" where
  "open_auction s job now =
     send_cfp (s\<lparr>current_job := Some job, bids := [], collecting_bids := True\<rparr>) job now"

definition seal :: "supervisor \<Rightarrow> supervisor" where
  "seal s = s\<lparr>collecting_bids := False\<rparr>"

definition evaluate :: "supervisor \<Rightarrow> Job \<Rightarrow> rat \<Rightarrow> supervisor \<times> exn option" where
  "evaluate s job now =
     (case select_winner s of
        Inl e \<Rightarrow> (s, Some e)
      | Inr (Some winner) \<Rightarrow>
          (case send_award s winner job now of
             (s', Some e) \<Rightarrow> (s', Some e)
           | (s', None) \<Rightarrow>
               (s'\<lparr>jobs_allocated := jobs_allocated s + 1, current_job := None\<rparr>, None))
      | Inr None \<Rightarrow>
          (s\<lparr>jobs_failed := jobs_failed s + 1, current_job := None\<rparr>, None))"

text \<open>
  While the auction thread sleeps, the bus client calls \<^verbatim>\<open>_on_message\<close> once for
  each message that arrives, in order, each with the clock reading at its arrival. An
  exception that escapes the callback goes to the thread of the bus client, not to the
  auction thread, and ends it: the messages after it are not delivered.
\<close>

fun deliver :: "supervisor \<Rightarrow> (payload \<times> rat) list \<Rightarrow> supervisor" where
  "deliver s [] = s"
| "deliver s ((p, t) # ms) =
     (case supervisor_on_message s p t of
        (s', None) \<Rightarrow> deliver s' ms
      | (s', Some e) \<Rightarrow> s')"

text \<open>The state when the deadline elapses, and the whole of \<^verbatim>\<open>_run_auction\<close>:
  \<open>t0\<close> is the clock when the CFP is sent, \<open>t1\<close> the clock after the sleep.\<close>

definition at_deadline :: "supervisor \<Rightarrow> Job \<Rightarrow> rat \<Rightarrow> (payload \<times> rat) list \<Rightarrow> supervisor" where
  "at_deadline s job t0 arrivals = deliver (open_auction s job t0) arrivals"

definition run_auction ::
  "supervisor \<Rightarrow> Job \<Rightarrow> rat \<Rightarrow> (payload \<times> rat) list \<Rightarrow> rat \<Rightarrow> supervisor \<times> exn option" where
  "run_auction s job t0 arrivals t1 = evaluate (seal (at_deadline s job t0 arrivals)) job t1"

text \<open>
  The same with messages that arrive late: \<open>late1\<close> between the end of the sleep
  (line 205) and the evaluation, \<open>late2\<close> after \<^verbatim>\<open>_run_auction\<close> has returned or
  raised and before the next auction opens.
\<close>

definition run_auction_late ::
  "supervisor \<Rightarrow> Job \<Rightarrow> rat \<Rightarrow> (payload \<times> rat) list \<Rightarrow> (payload \<times> rat) list \<Rightarrow> rat \<Rightarrow>
   (payload \<times> rat) list \<Rightarrow> supervisor \<times> exn option" where
  "run_auction_late s job t0 arrivals late1 t1 late2 =
     (case evaluate (deliver (seal (at_deadline s job t0 arrivals)) late1) job t1 of
        (s', e) \<Rightarrow> (deliver s' late2, e))"

section \<open>The Machine (\<^verbatim>\<open>machine.py\<close>)\<close>

text \<open>The arguments of a started \<^verbatim>\<open>_execute_job\<close> thread.\<close>

record execution =
  exec_job_id :: json
  exec_job_type :: json
  execution_time :: rat
  exec_supervisor_id :: json

text \<open>
  The fields of \<^verbatim>\<open>Machine\<close>. \<open>machine_current_job\<close> is \<^verbatim>\<open>self.current_job\<close>
  (\<open>JNull\<close> is \<^verbatim>\<open>None\<close>), \<open>threads\<close> the executions started and not yet finished,
  \<open>published\<close> the record of its \<^verbatim>\<open>self.client.publish\<close> calls, \<open>machine_client\<close>
  its bus client.
\<close>

record machine =
  machine_id :: string
  capabilities :: "string \<rightharpoonup> rat"
  busy :: bool
  machine_current_job :: json
  current_job_end :: rat
  jobs_bid :: nat
  jobs_won :: nat
  jobs_completed :: nat
  jobs_rejected :: nat
  threads :: "execution list"
  published :: "(topic \<times> message) list"
  machine_client :: bus_client

text \<open>
  Looking a JSON value up in \<^verbatim>\<open>self.capabilities\<close>, whose keys are strings
  (\<^verbatim>\<open>in\<close>, \<^verbatim>\<open>[...]\<close> and \<^verbatim>\<open>.get\<close>): a list or a dict is unhashable and raises
  \<^verbatim>\<open>TypeError\<close>; \<^verbatim>\<open>None\<close>, a bool or a number is no key of the table.
\<close>

fun caps_lookup :: "(string \<rightharpoonup> rat) \<Rightarrow> json \<Rightarrow> exn + rat option" where
  "caps_lookup c (JStr k) = Inr (c k)"
| "caps_lookup c (JArr xs) = Inl TypeError"
| "caps_lookup c (JObj d) = Inl TypeError"
| "caps_lookup c v = Inr None"

text \<open>
  \<^verbatim>\<open>_send_bid\<close> (lines 111-125) and \<^verbatim>\<open>_send_rejection\<close> (lines 127-138). The topic
  is built from the supervisor id of the CFP, unchecked. When \<^verbatim>\<open>publish\<close> raises,
  \<^verbatim>\<open>self.jobs_bid += 1\<close> is not run and the exception leaves the function.
\<close>

definition send_bid :: "machine \<Rightarrow> json \<Rightarrow> json \<Rightarrow> rat \<Rightarrow> rat \<Rightarrow> machine \<times> exn option" where
  "send_bid m sid jid exec_time now =
     (let m1 = m\<lparr>published := published m @
                  [(TopicBid sid, BidMsg (machine_id m) jid exec_time now)]\<rparr>
      in case machine_client m (TopicBid sid) of
           Some e \<Rightarrow> (m1, Some e)
         | None \<Rightarrow> (m1\<lparr>jobs_bid := jobs_bid m + 1\<rparr>, None))"

definition send_rejection ::
  "machine \<Rightarrow> json \<Rightarrow> json \<Rightarrow> reason_text \<Rightarrow> rat \<Rightarrow> machine \<times> exn option" where
  "send_rejection m sid jid reason now =
     (m\<lparr>published := published m @ [(TopicBid sid, Rejection (machine_id m) jid reason now)]\<rparr>,
      machine_client m (TopicBid sid))"

text \<open>\<^verbatim>\<open>_handle_cfp\<close> (lines 87-109).\<close>

definition handle_cfp :: "machine \<Rightarrow> (string \<times> json) list \<Rightarrow> rat \<Rightarrow> machine \<times> exn option" where
  "handle_cfp m data now =
     (let jt = dict_get data ''job_type'';
          jid = dict_get data ''job_id'';
          sid = dict_get data ''supervisor_id''
      in if busy m then send_rejection m sid jid (Str ''Machine is busy'') now
         else case caps_lookup (capabilities m) jt of
           Inl e \<Rightarrow> (m, Some e)
         | Inr None \<Rightarrow> send_rejection m sid jid (FStr ''Cannot perform '' jt) now
         | Inr (Some exec_time) \<Rightarrow> send_bid m sid jid exec_time now)"

text \<open>
  \<^verbatim>\<open>_handle_award\<close> (lines 140-162). The three assignments come before
  \<^verbatim>\<open>self.capabilities.get(job_type, 5.0)\<close>, so they stay when that call raises.
\<close>

definition handle_award :: "machine \<Rightarrow> (string \<times> json) list \<Rightarrow> machine \<times> exn option" where
  "handle_award m data =
     (let jid = dict_get data ''job_id'';
          jt = dict_get data ''job_type'';
          sid = dict_get data ''supervisor_id''
      in if \<not> py_eq (dict_get data ''machine_id'') (JStr (machine_id m)) then (m, None)
         else
           let m1 = m\<lparr>jobs_won := jobs_won m + 1, busy := True, machine_current_job := jid\<rparr>
           in case caps_lookup (capabilities m1) jt of
             Inl e \<Rightarrow> (m1, Some e)
           | Inr v \<Rightarrow>
               (m1\<lparr>threads := threads m1 @
                     [\<lparr>exec_job_id = jid, exec_job_type = jt,
                       execution_time = (case v of None \<Rightarrow> 5 | Some t \<Rightarrow> t),
                       exec_supervisor_id = sid\<rparr>]\<rparr>,
                None))"



text \<open>\<^verbatim>\<open>_handle_reject\<close> (lines 190-196).\<close>

definition handle_reject :: "machine \<Rightarrow> (string \<times> json) list \<Rightarrow> machine \<times> exn option" where
  "handle_reject m data = (m\<lparr>jobs_rejected := jobs_rejected m + 1\<rparr>, None)"

text \<open>
  \<^verbatim>\<open>Machine._on_message\<close> (lines 68-85): only \<^verbatim>\<open>JSONDecodeError\<close> is caught, so
  every other exception of \<^verbatim>\<open>json.loads(msg.payload.decode())\<close> escapes, and so do the
  \<^verbatim>\<open>AttributeError\<close> of \<^verbatim>\<open>data.get\<close> on a value that is not a dict and any
  exception of the three handlers.
\<close>

definition machine_on_message :: "machine \<Rightarrow> payload \<Rightarrow> rat \<Rightarrow> machine \<times> exn option" where
  "machine_on_message m p now =
     (case p of
        Undecodable \<Rightarrow> (m, Some UnicodeDecodeError)
      | NotJson \<Rightarrow> (m, None)
      | DigitLimit \<Rightarrow> (m, Some ValueError)
      | TooDeep \<Rightarrow> (m, Some RecursionError)
      | Json (JObj data) \<Rightarrow>
          (let mt = dict_get data ''type''
           in if py_eq mt (JStr ''cfp'') then handle_cfp m data now
              else if py_eq mt (JStr ''award'') then handle_award m data
              else if py_eq mt (JStr ''reject'') then handle_reject m data
              else (m, None))
      | Json _ \<Rightarrow> (m, Some AttributeError))"

text \<open>\<^verbatim>\<open>Supervisor.__init__\<close> and \<^verbatim>\<open>Machine.__init__\<close>: the state of a new agent
  with a given bus client.\<close>

definition init_supervisor :: "string \<Rightarrow> rat \<Rightarrow> bus_client \<Rightarrow> supervisor" where
  "init_supervisor sid dl c =
     \<lparr>supervisor_id = sid, deadline = dl, current_job = None, bids = [],
      collecting_bids = False, jobs_created = 0, jobs_allocated = 0, jobs_failed = 0,
      sent = [], supervisor_client = c\<rparr>"

definition init_machine :: "string \<Rightarrow> (string \<rightharpoonup> rat) \<Rightarrow> bus_client \<Rightarrow> machine" where
  "init_machine mid caps c =
     \<lparr>machine_id = mid, capabilities = caps, busy = False, machine_current_job = JNull,
      current_job_end = 0, jobs_bid = 0, jobs_won = 0, jobs_completed = 0, jobs_rejected = 0,
      threads = [], published = [], machine_client = c\<rparr>"

section \<open>Vocabulary of the properties\<close>

text \<open>The proposed completion duration of a bid, when the bid carries a finite number.\<close>

definition duration :: "Bid \<Rightarrow> rat option" where
  "duration b = (case num_of (proposed_time b) of Some (Fin r) \<Rightarrow> Some r | _ \<Rightarrow> None)"

definition duration_le :: "Bid \<Rightarrow> Bid \<Rightarrow> bool" where
  "duration_le a b =
     (case (duration a, duration b) of (Some x, Some y) \<Rightarrow> x \<le> y | _ \<Rightarrow> False)"

text \<open>The \<^verbatim>\<open>publish\<close> calls the Supervisor has made between two of its states.\<close>

definition new_messages :: "supervisor \<Rightarrow> supervisor \<Rightarrow> (topic \<times> message) list" where
  "new_messages s s' = drop (length (sent s)) (sent s')"

section \<open>Example runs\<close>

text \<open>
  A bus client for the examples. On a topic built from an id that is a string it does
  what paho's \<^verbatim>\<open>publish\<close> does: it raises \<^verbatim>\<open>ValueError\<close> when the id holds \<^verbatim>\<open>+\<close>
  or \<^verbatim>\<open>#\<close>, and returns otherwise. The examples use no other topic.
\<close>

definition has_wildcard :: "string \<Rightarrow> bool" where
  "has_wildcard s = (CHR ''+'' \<in> set s \<or> CHR ''#'' \<in> set s)"

fun wildcard_client :: bus_client where
  "wildcard_client (TopicBid (JStr s)) = (if has_wildcard s then Some ValueError else None)"
| "wildcard_client (TopicAward (JStr s)) = (if has_wildcard s then Some ValueError else None)"
| "wildcard_client (TopicReject (JStr s)) = (if has_wildcard s then Some ValueError else None)"
| "wildcard_client (TopicComplete (JStr s)) = (if has_wildcard s then Some ValueError else None)"
| "wildcard_client tp = None"


definition bid_payload :: "string \<Rightarrow> string \<Rightarrow> number \<Rightarrow> rat \<Rightarrow> payload" where
  "bid_payload mid jid pt ts =
     Json (JObj [(''type'', JStr ''bid''), (''machine_id'', JStr mid), (''job_id'', JStr jid),
                 (''proposed_time'', JNum pt), (''timestamp'', JNum (Fin ts))])"

definition rejection_payload :: "string \<Rightarrow> string \<Rightarrow> string \<Rightarrow> rat \<Rightarrow> payload" where
  "rejection_payload mid jid reason ts =
     Json (JObj [(''type'', JStr ''rejection''), (''machine_id'', JStr mid), (''job_id'', JStr jid),
                 (''reason'', JStr reason), (''timestamp'', JNum (Fin ts))])"

definition award_payload :: "string \<Rightarrow> string \<Rightarrow> string \<Rightarrow> string \<Rightarrow> rat \<Rightarrow> payload" where
  "award_payload sid jid jt mid ts =
     Json (JObj [(''type'', JStr ''award''), (''supervisor_id'', JStr sid), (''job_id'', JStr jid),
                 (''job_type'', JStr jt), (''machine_id'', JStr mid), (''timestamp'', JNum (Fin ts))])"

text \<open>A Supervisor with the default deadline of 3 seconds, two jobs, and a Machine that
  can do \<^verbatim>\<open>job_A\<close> in 5 seconds and \<^verbatim>\<open>job_B\<close> in 3.\<close>

definition supervisor_001 :: supervisor where
  "supervisor_001 = init_supervisor ''supervisor_001'' 3 wildcard_client"

definition job_1 :: Job where
  "job_1 = \<lparr>job_id = ''job_1'', job_type = ''job_A'',
            description = ''Execute job_A operation'', timestamp = 100\<rparr>"


definition machine_1 :: machine where
  "machine_1 = init_machine ''machine_1'' [''job_A'' \<mapsto> 5, ''job_B'' \<mapsto> 3] wildcard_client"


text \<open>Arrivals during the collection of \<open>job_1\<close>: each payload with the clock at its
  arrival.\<close>

definition two_bids :: "(payload \<times> rat) list" where
  "two_bids = [(bid_payload ''machine_1'' ''job_1'' (Fin 5) 101, 102),
               (bid_payload ''machine_2'' ''job_1'' (Fin 3) 103, 104)]"

definition nan_bids :: "(payload \<times> rat) list" where
  "nan_bids = [(bid_payload ''machine_1'' ''job_1'' NaN 101, 102),
               (bid_payload ''machine_2'' ''job_1'' (Fin 3) 103, 104)]"



definition busy_reply :: "(payload \<times> rat) list" where
  "busy_reply = [(rejection_payload ''machine_3'' ''job_1'' ''Machine is busy'' 101, 102)]"

definition late_bid :: "(payload \<times> rat) list" where
  "late_bid = [(bid_payload ''machine_4'' ''job_1'' (Fin 1) 102, 104)]"


section \<open>Facts about the Supervisor\<close>

lemma py_eq_JStr [simp]: "py_eq v (JStr s) \<longleftrightarrow> v = JStr s"
  by (cases v) auto

lemma py_lt_num:
  "num_of a = Some (Fin x) \<Longrightarrow> num_of b = Some (Fin y) \<Longrightarrow> py_lt a b = Some (x < y)"
  by (cases a; cases b) auto

lemma duration_Some: "duration b = Some d \<longleftrightarrow> num_of (proposed_time b) = Some (Fin d)"
  by (auto simp: duration_def split: option.splits number.splits)

lemmas example_defs =
  supervisor_001_def init_supervisor_def job_1_def bid_payload_def rejection_payload_def
  at_deadline_def open_auction_def send_cfp_def supervisor_on_message_def dict_get_def
  dict_get_default_def

subsection \<open>The handler once collection is closed, and what it never touches\<close>

lemma on_message_closed:
  "\<not> collecting_bids s \<Longrightarrow> supervisor_on_message s p t = (s, None)"
  by (simp add: supervisor_on_message_def)

lemma deliver_closed: "\<not> collecting_bids s \<Longrightarrow> deliver s ms = s"
  by (induction ms) (auto simp: on_message_closed)

lemma on_message_frame:
  "fst (supervisor_on_message s p t) = s\<lparr>bids := bids (fst (supervisor_on_message s p t))\<rparr>"
  by (auto simp: supervisor_on_message_def split: payload.splits json.splits option.splits)

lemma deliver_frame: "deliver s ms = s\<lparr>bids := bids (deliver s ms)\<rparr>"
proof (induction ms arbitrary: s)
  case Nil
  show ?case by simp
next
  case (Cons a ms)
  obtain p t where a: "a = (p, t)" by (cases a)
  obtain s1 r where h: "supervisor_on_message s p t = (s1, r)"
    by (cases "supervisor_on_message s p t")
  have f: "s1 = s\<lparr>bids := bids s1\<rparr>" using on_message_frame [of s p t] h by simp
  show ?case
  proof (cases r)
    case None
    have "deliver s1 ms = s1\<lparr>bids := bids (deliver s1 ms)\<rparr>" by (rule Cons.IH)
    also have "\<dots> = s\<lparr>bids := bids (deliver s1 ms)\<rparr>" by (subst f) simp
    finally show ?thesis using None h by (simp add: a)
  next
    case (Some e)
    then show ?thesis using h f by (simp add: a)
  qed
qed

lemma publish_all_filter:
  "length (filter P (fst (publish_all c xs))) \<le> length (filter P xs)"
  by (induction xs) (auto split: option.splits prod.splits)

lemma publish_all_subset: "set (fst (publish_all c xs)) \<subseteq> set xs"
  by (induction xs) (auto split: option.splits prod.splits)

lemma send_award_result:
  "send_award s w job t = (s', r) \<Longrightarrow> s' = s\<lparr>sent := sent s'\<rparr>"
  by (auto simp: send_award_def split: prod.splits)

lemma send_award_collecting:
  "send_award s w job t = (s', r) \<Longrightarrow> collecting_bids s' = collecting_bids s"
  by (auto simp: send_award_def split: prod.splits)

lemma evaluate_closed:
  "\<not> collecting_bids s \<Longrightarrow> \<not> collecting_bids (fst (evaluate s job t))"
  by (auto simp: evaluate_def split: sum.splits option.splits prod.splits
      dest: send_award_collecting)

lemma select_winner_seal [simp]: "select_winner (seal s) = select_winner s"
  by (simp add: select_winner_def seal_def)

lemma bids_seal [simp]: "bids (seal s) = bids s"
  by (simp add: seal_def)

lemma sent_seal [simp]: "sent (seal s) = sent s"
  by (simp add: seal_def)

lemma supervisor_id_seal [simp]: "supervisor_id (seal s) = supervisor_id s"
  by (simp add: seal_def)

lemma supervisor_client_seal [simp]: "supervisor_client (seal s) = supervisor_client s"
  by (simp add: seal_def)

lemma sent_at_deadline:
  "sent (at_deadline s job t0 arrivals) =
     sent s @ [(TopicCfp, Cfp (supervisor_id s) (job_id job) (job_type job)
                  (description job) (deadline s) t0)]"
proof -
  have "sent (at_deadline s job t0 arrivals) = sent (open_auction s job t0)"
    unfolding at_deadline_def by (subst deliver_frame) simp
  then show ?thesis by (simp add: open_auction_def send_cfp_def)
qed

lemma supervisor_id_at_deadline: "supervisor_id (at_deadline s job t0 arrivals) = supervisor_id s"
proof -
  have "supervisor_id (at_deadline s job t0 arrivals) = supervisor_id (open_auction s job t0)"
    unfolding at_deadline_def by (subst deliver_frame) simp
  then show ?thesis by (simp add: open_auction_def send_cfp_def)
qed

lemma supervisor_client_at_deadline:
  "supervisor_client (at_deadline s job t0 arrivals) = supervisor_client s"
proof -
  have "supervisor_client (at_deadline s job t0 arrivals) =
        supervisor_client (open_auction s job t0)"
    unfolding at_deadline_def by (subst deliver_frame) simp
  then show ?thesis by (simp add: open_auction_def send_cfp_def)
qed

subsection \<open>Python's \<^verbatim>\<open>min\<close> on keys that are finite numbers\<close>

lemma min_from_mem: "min_from key best xs = Inr w \<Longrightarrow> w \<in> set (best # xs)"
proof (induction xs arbitrary: best)
  case Nil
  then show ?case by simp
next
  case (Cons x xs)
  then show ?case by (fastforce split: option.splits bool.splits)
qed

lemma min_from_least:
  assumes "num_of (key best) = Some (Fin c)"
    and "\<forall>x\<in>set xs. \<exists>e. num_of (key x) = Some (Fin e)"
  shows "\<exists>w d. min_from key best xs = Inr w \<and> w \<in> set (best # xs) \<and>
           num_of (key w) = Some (Fin d) \<and> d \<le> c \<and>
           (\<forall>x\<in>set xs. \<exists>e. num_of (key x) = Some (Fin e) \<and> d \<le> e)"
  using assms
proof (induction xs arbitrary: best c)
  case Nil
  then show ?case by simp
next
  case (Cons x xs)
  from Cons.prems obtain e where e: "num_of (key x) = Some (Fin e)" by auto
  have rest: "\<forall>y\<in>set xs. \<exists>e. num_of (key y) = Some (Fin e)" using Cons.prems by simp
  have lt: "py_lt (key x) (key best) = Some (e < c)"
    using e Cons.prems(1) by (rule py_lt_num)
  show ?case
  proof (cases "e < c")
    case True
    from Cons.IH [OF e rest] obtain w d where
      w: "min_from key x xs = Inr w" "w \<in> set (x # xs)" "num_of (key w) = Some (Fin d)" "d \<le> e"
         "\<forall>y\<in>set xs. \<exists>e'. num_of (key y) = Some (Fin e') \<and> d \<le> e'"
      by blast
    have "min_from key best (x # xs) = Inr w" using lt True w(1) by simp
    moreover have "d \<le> c" using w(4) True by simp
    ultimately show ?thesis using w e by auto
  next
    case False
    from Cons.IH [OF Cons.prems(1) rest] obtain w d where
      w: "min_from key best xs = Inr w" "w \<in> set (best # xs)" "num_of (key w) = Some (Fin d)"
         "d \<le> c" "\<forall>y\<in>set xs. \<exists>e'. num_of (key y) = Some (Fin e') \<and> d \<le> e'"
      by blast
    have "min_from key best (x # xs) = Inr w" using lt False w(1) by simp
    moreover have "d \<le> e" using w(4) False by simp
    ultimately show ?thesis using w e by auto
  qed
qed



lemma select_winner_mem: "select_winner s = Inr (Some w) \<Longrightarrow> w \<in> set (bids s)"
  by (auto simp: select_winner_def split: list.splits sum.splits dest: min_from_mem)

lemma select_winner_least:
  assumes "\<forall>b\<in>set (bids s). duration b \<noteq> None"
    and "select_winner s = Inr (Some w)"
  shows "\<forall>b\<in>set (bids s). duration_le w b"
proof (cases "bids s")
  case Nil
  then show ?thesis by simp
next
  case (Cons b bs)
  have fin: "\<forall>x\<in>set (bids s). \<exists>e. num_of (proposed_time x) = Some (Fin e)"
    using assms(1) by (auto simp: duration_Some)
  from fin Cons obtain c where c: "num_of (proposed_time b) = Some (Fin c)" by auto
  have rest: "\<forall>x\<in>set bs. \<exists>e. num_of (proposed_time x) = Some (Fin e)"
    using fin Cons by simp
  from min_from_least [OF c rest] obtain w' d where
    w': "min_from proposed_time b bs = Inr w'" "num_of (proposed_time w') = Some (Fin d)"
        "d \<le> c" "\<forall>x\<in>set bs. \<exists>e. num_of (proposed_time x) = Some (Fin e) \<and> d \<le> e"
    by blast
  have "w' = w" using assms(2) Cons w'(1) by (simp add: select_winner_def)
  then show ?thesis using w' c Cons by (auto simp: duration_le_def duration_def)
qed

subsection \<open>What one auction publishes\<close>

lemma new_messages_run_auction:
  "new_messages s (fst (run_auction s job t0 arrivals t1)) =
     (TopicCfp, Cfp (supervisor_id s) (job_id job) (job_type job) (description job) (deadline s) t0) #
     (case select_winner (at_deadline s job t0 arrivals) of
        Inr (Some w) \<Rightarrow>
          fst (publish_all (supervisor_client s)
            ((TopicAward (bid_machine_id w),
              Award (supervisor_id s) (job_id job) (job_type job) (bid_machine_id w) t1) #
             map (\<lambda>b. (TopicReject (bid_machine_id b),
                       Reject (supervisor_id s) (job_id job)
                         (Str ''Another machine was selected'') t1))
               (filter (\<lambda>b. \<not> py_eq (bid_machine_id b) (bid_machine_id w))
                  (bids (at_deadline s job t0 arrivals)))))
      | _ \<Rightarrow> [])"
  by (cases "select_winner (at_deadline s job t0 arrivals)")
     (auto simp: new_messages_def run_auction_def evaluate_def send_award_def
        sent_at_deadline supervisor_id_at_deadline supervisor_client_at_deadline
        split: option.splits prod.splits)

lemma sent_run_auction:
  "sent (fst (run_auction s job t0 arrivals t1)) =
     sent s @ new_messages s (fst (run_auction s job t0 arrivals t1))"
  by (cases "select_winner (at_deadline s job t0 arrivals)")
     (auto simp: new_messages_def run_auction_def evaluate_def send_award_def
        sent_at_deadline split: option.splits prod.splits)

lemma bids_two: "bids (at_deadline supervisor_001 job_1 100 two_bids) =
   [\<lparr>bid_machine_id = JStr ''machine_1'', bid_job_id = JStr ''job_1'',
      proposed_time = JNum (Fin 5), bid_timestamp = JNum (Fin 101)\<rparr>,
    \<lparr>bid_machine_id = JStr ''machine_2'', bid_job_id = JStr ''job_1'',
      proposed_time = JNum (Fin 3), bid_timestamp = JNum (Fin 103)\<rparr>]"
  by (simp add: example_defs two_bids_def)

lemma new_two: "new_messages supervisor_001 (fst (run_auction supervisor_001 job_1 100 two_bids 103)) =
    [(TopicCfp, Cfp ''supervisor_001'' ''job_1'' ''job_A'' ''Execute job_A operation'' 3 100),
     (TopicAward (JStr ''machine_2''),
      Award ''supervisor_001'' ''job_1'' ''job_A'' (JStr ''machine_2'') 103),
     (TopicReject (JStr ''machine_1''),
      Reject ''supervisor_001'' ''job_1'' (Str ''Another machine was selected'') 103)]"
  by (simp add: new_messages_run_auction bids_two select_winner_def)
     (simp add: supervisor_001_def init_supervisor_def job_1_def has_wildcard_def)

text \<open>
  Whatever arrives during the collection and whatever the bus client refuses,
  \<^verbatim>\<open>_run_auction\<close> only appends to the record of the Supervisor's \<^verbatim>\<open>publish\<close> calls,
  and what it appends holds at most one Award. That Award is addressed to the award
  topic of the machine id of a bid in the bid set as it is when the deadline elapses;
  and when every bid of that set carries a finite number as its proposed time, no bid of
  the set has a smaller proposed time than that bid.
\<close>

lemma single_award_to_a_bidder:
  "sent (fst (run_auction s job t0 arrivals t1)) =
     sent s @ new_messages s (fst (run_auction s job t0 arrivals t1)) \<and>
   length (filter is_award (new_messages s (fst (run_auction s job t0 arrivals t1)))) \<le> 1 \<and>
   (\<forall>tp sid jid jt mid ts.
      (tp, Award sid jid jt mid ts) \<in> set (new_messages s (fst (run_auction s job t0 arrivals t1))) \<longrightarrow>
      tp = TopicAward mid \<and>
      (\<exists>w\<in>set (bids (at_deadline s job t0 arrivals)).
         bid_machine_id w = mid \<and>
         ((\<forall>b\<in>set (bids (at_deadline s job t0 arrivals)). duration b \<noteq> None) \<longrightarrow>
          (\<forall>b\<in>set (bids (at_deadline s job t0 arrivals)). duration_le w b))))"
proof (intro conjI allI impI)
  show "sent (fst (run_auction s job t0 arrivals t1)) =
     sent s @ new_messages s (fst (run_auction s job t0 arrivals t1))"
    by (rule sent_run_auction)
next
  have rej: "filter is_award (map (\<lambda>b. (TopicReject (bid_machine_id b),
      Reject sid jid r ts)) xs) = []" for sid jid r ts and xs :: "Bid list"
    by (induction xs) auto
  have one: "length (filter is_award (fst (publish_all c (a # map (\<lambda>b. (TopicReject (bid_machine_id b),
      Reject sid jid r ts)) xs)))) \<le> 1" for c a sid jid r ts and xs :: "Bid list"
    using publish_all_filter [of is_award c "a # map (\<lambda>b. (TopicReject (bid_machine_id b),
      Reject sid jid r ts)) xs"] by (simp add: rej del: publish_all.simps split: if_splits)
  show "length (filter is_award (new_messages s (fst (run_auction s job t0 arrivals t1)))) \<le> 1"
  proof (cases "select_winner (at_deadline s job t0 arrivals)")
    case (Inl e)
    then show ?thesis by (simp add: new_messages_run_auction)
  next
    case (Inr r)
    then show ?thesis using one
      by (cases r) (simp_all add: new_messages_run_auction del: publish_all.simps)
  qed
next
  fix tp sid jid jt mid ts
  assume a: "(tp, Award sid jid jt mid ts) \<in> set (new_messages s (fst (run_auction s job t0 arrivals t1)))"
  have "\<exists>w. select_winner (at_deadline s job t0 arrivals) = Inr (Some w) \<and>
          tp = TopicAward (bid_machine_id w) \<and> mid = bid_machine_id w"
  proof (cases "select_winner (at_deadline s job t0 arrivals)")
    case (Inl e)
    then show ?thesis using a by (simp add: new_messages_run_auction)
  next
    case (Inr r)
    show ?thesis
    proof (cases r)
      case None
      then show ?thesis using a Inr by (simp add: new_messages_run_auction)
    next
      case (Some w)
      let ?calls = "(TopicAward (bid_machine_id w),
              Award (supervisor_id s) (job_id job) (job_type job) (bid_machine_id w) t1) #
             map (\<lambda>b. (TopicReject (bid_machine_id b),
                       Reject (supervisor_id s) (job_id job)
                         (Str ''Another machine was selected'') t1))
               (filter (\<lambda>b. \<not> py_eq (bid_machine_id b) (bid_machine_id w))
                  (bids (at_deadline s job t0 arrivals)))"
      have "(tp, Award sid jid jt mid ts) \<in> set (fst (publish_all (supervisor_client s) ?calls))"
        using a Inr Some by (simp add: new_messages_run_auction del: publish_all.simps)
      then have "(tp, Award sid jid jt mid ts) \<in> set ?calls"
        using publish_all_subset [of "supervisor_client s" ?calls] by blast
      then show ?thesis using Inr Some by auto
    qed
  qed
  then obtain w where w: "select_winner (at_deadline s job t0 arrivals) = Inr (Some w)"
    and m: "tp = TopicAward (bid_machine_id w)" "mid = bid_machine_id w"
    by blast
  show "tp = TopicAward mid" using m by simp
  show "\<exists>w\<in>set (bids (at_deadline s job t0 arrivals)).
         bid_machine_id w = mid \<and>
         ((\<forall>b\<in>set (bids (at_deadline s job t0 arrivals)). duration b \<noteq> None) \<longrightarrow>
          (\<forall>b\<in>set (bids (at_deadline s job t0 arrivals)). duration_le w b))"
    using select_winner_mem [OF w] select_winner_least [OF _ w] m by blast
qed

lemma bids_nan: "bids (at_deadline supervisor_001 job_1 100 nan_bids) =
   [\<lparr>bid_machine_id = JStr ''machine_1'', bid_job_id = JStr ''job_1'',
      proposed_time = JNum NaN, bid_timestamp = JNum (Fin 101)\<rparr>,
    \<lparr>bid_machine_id = JStr ''machine_2'', bid_job_id = JStr ''job_1'',
      proposed_time = JNum (Fin 3), bid_timestamp = JNum (Fin 103)\<rparr>]"
  by (simp add: example_defs nan_bids_def)

text \<open>
  Claim C1 is broken by the code where a collected bid carries \<^verbatim>\<open>nan\<close> as its proposed
  time. While the Supervisor collects bids for \<open>job_1\<close>, \<open>machine_1\<close> bids \<^verbatim>\<open>NaN\<close>
  and then \<open>machine_2\<close> bids 3 seconds; both bids enter the bid set. \<^verbatim>\<open>min\<close> keeps
  its first candidate, since \<^verbatim>\<open>3 < nan\<close> is false, and \<^verbatim>\<open>_run_auction\<close> ends without
  an exception having sent the Award to \<open>machine_1\<close> and a Reject to \<open>machine_2\<close>, the
  only bidder with a proposed duration, and so the one with the minimum. The docstring
  of \<^verbatim>\<open>_select_winner\<close> says that it selects the lowest time.
\<close>

theorem nan_bid_wins_award:
  "bids (at_deadline supervisor_001 job_1 100 nan_bids) =
     [\<lparr>bid_machine_id = JStr ''machine_1'', bid_job_id = JStr ''job_1'',
        proposed_time = JNum NaN, bid_timestamp = JNum (Fin 101)\<rparr>,
      \<lparr>bid_machine_id = JStr ''machine_2'', bid_job_id = JStr ''job_1'',
        proposed_time = JNum (Fin 3), bid_timestamp = JNum (Fin 103)\<rparr>] \<and>
   py_lt (JNum (Fin 3)) (JNum NaN) = Some False \<and>
   snd (run_auction supervisor_001 job_1 100 nan_bids 103) = None \<and>
   new_messages supervisor_001 (fst (run_auction supervisor_001 job_1 100 nan_bids 103)) =
    [(TopicCfp, Cfp ''supervisor_001'' ''job_1'' ''job_A'' ''Execute job_A operation'' 3 100),
     (TopicAward (JStr ''machine_1''),
      Award ''supervisor_001'' ''job_1'' ''job_A'' (JStr ''machine_1'') 103),
     (TopicReject (JStr ''machine_2''),
      Reject ''supervisor_001'' ''job_1'' (Str ''Another machine was selected'') 103)]"
proof -
  have w: "select_winner (at_deadline supervisor_001 job_1 100 nan_bids) =
     Inr (Some \<lparr>bid_machine_id = JStr ''machine_1'', bid_job_id = JStr ''job_1'',
        proposed_time = JNum NaN, bid_timestamp = JNum (Fin 101)\<rparr>)"
    by (simp add: bids_nan select_winner_def)
  have c: "supervisor_client (at_deadline supervisor_001 job_1 100 nan_bids) = wildcard_client"
    by (simp add: supervisor_client_at_deadline supervisor_001_def init_supervisor_def)
  have n: "new_messages supervisor_001 (fst (run_auction supervisor_001 job_1 100 nan_bids 103)) =
    [(TopicCfp, Cfp ''supervisor_001'' ''job_1'' ''job_A'' ''Execute job_A operation'' 3 100),
     (TopicAward (JStr ''machine_1''),
      Award ''supervisor_001'' ''job_1'' ''job_A'' (JStr ''machine_1'') 103),
     (TopicReject (JStr ''machine_2''),
      Reject ''supervisor_001'' ''job_1'' (Str ''Another machine was selected'') 103)]"
    by (simp add: new_messages_run_auction w bids_nan)
       (simp add: supervisor_001_def init_supervisor_def job_1_def has_wildcard_def)
  have e: "snd (run_auction supervisor_001 job_1 100 nan_bids 103) = None"
    by (simp add: run_auction_def evaluate_def w send_award_def c bids_nan has_wildcard_def)
  show ?thesis using n e by (simp add: bids_nan)
qed

subsection \<open>Ties\<close>






subsection \<open>Late messages\<close>

text \<open>
  Claim C3. Once line 205 has cleared \<^verbatim>\<open>collecting_bids\<close>, the handler returns the
  state as it found it, without an exception, whatever the payload is. So an auction in
  which messages arrive after that assignment (before the evaluation, or after
  \<^verbatim>\<open>_run_auction\<close> has ended) leaves the same state (bid set, published messages,
  counters) and the same exception, if any, as the auction without them. Each call of
  the handler is taken as one step.
\<close>

theorem late_messages_excluded:
  "supervisor_on_message (seal s) p t = (seal s, None) \<and>
   run_auction_late s job t0 arrivals late1 t1 late2 = run_auction s job t0 arrivals t1"
proof
  show "supervisor_on_message (seal s) p t = (seal s, None)"
    by (rule on_message_closed) (simp add: seal_def)
next
  let ?d = "seal (at_deadline s job t0 arrivals)"
  have c: "\<not> collecting_bids ?d" by (simp add: seal_def)
  have 1: "deliver ?d late1 = ?d" using c by (rule deliver_closed)
  obtain s' e where ev: "evaluate ?d job t1 = (s', e)" by (cases "evaluate ?d job t1")
  have "\<not> collecting_bids s'" using evaluate_closed [OF c, of job t1] ev by simp
  then have 2: "deliver s' late2 = s'" by (rule deliver_closed)
  show "run_auction_late s job t0 arrivals late1 t1 late2 = run_auction s job t0 arrivals t1"
    by (simp add: run_auction_late_def run_auction_def 1 ev 2)
qed

text \<open>An instance: a bid of 1 second, which would have won, arrives twice after the
  deadline.\<close>

theorem late_messages_excluded_witness:
  "run_auction_late supervisor_001 job_1 100 two_bids late_bid 103 late_bid =
     run_auction supervisor_001 job_1 100 two_bids 103 \<and>
   new_messages supervisor_001
     (fst (run_auction_late supervisor_001 job_1 100 two_bids late_bid 103 late_bid)) =
    [(TopicCfp, Cfp ''supervisor_001'' ''job_1'' ''job_A'' ''Execute job_A operation'' 3 100),
     (TopicAward (JStr ''machine_2''),
      Award ''supervisor_001'' ''job_1'' ''job_A'' (JStr ''machine_2'') 103),
     (TopicReject (JStr ''machine_1''),
      Reject ''supervisor_001'' ''job_1'' (Str ''Another machine was selected'') 103)]"
  using late_messages_excluded [of supervisor_001 NotJson 104 job_1 100 two_bids late_bid 103 late_bid]
  by (simp add: new_two)

text \<open>
  Once the next auction has opened, a message that still carries the job id of an
  earlier auction is dropped by the comparison with the current job's id (lines
  101-102), as long as the two job ids differ.
\<close>

lemma stale_job_id_dropped:
  assumes "current_job s = Some j" and "dict_get data ''job_id'' \<noteq> JStr (job_id j)"
  shows "supervisor_on_message s (Json (JObj data)) t = (s, None)"
  using assms by (simp add: supervisor_on_message_def)

subsection \<open>An auction without bids\<close>

text \<open>
  Claim C4. When the bid set is empty as the deadline elapses, \<^verbatim>\<open>_run_auction\<close> ends
  without an exception in the state it started from with only these changes: the bid
  set is empty, the current job and the collecting flag are cleared, the failed-job
  counter is one more, and the CFP is the only message published. No Award and no
  Reject is published, and the allocated-job counter is as before.
\<close>

theorem no_bids_fails:
  assumes "bids (at_deadline s job t0 arrivals) = []"
  shows "run_auction s job t0 arrivals t1 =
    (s\<lparr>current_job := None, bids := [], collecting_bids := False,
        jobs_failed := jobs_failed s + 1,
        sent := sent s @ [(TopicCfp, Cfp (supervisor_id s) (job_id job) (job_type job)
                            (description job) (deadline s) t0)]\<rparr>, None)"
proof -
  have "at_deadline s job t0 arrivals = (open_auction s job t0)\<lparr>bids := []\<rparr>"
    unfolding at_deadline_def using deliver_frame [of "open_auction s job t0" arrivals] assms
    by (simp add: at_deadline_def)
  then show ?thesis
    by (simp add: run_auction_def seal_def evaluate_def select_winner_def open_auction_def send_cfp_def)
qed

text \<open>An instance: the only reply to the CFP is the Rejection of a busy machine.\<close>

theorem no_bids_fails_witness:
  "bids (at_deadline supervisor_001 job_1 100 busy_reply) = [] \<and>
   run_auction supervisor_001 job_1 100 busy_reply 103 =
     (supervisor_001\<lparr>current_job := None, bids := [], collecting_bids := False,
        jobs_failed := 1,
        sent := [(TopicCfp, Cfp ''supervisor_001'' ''job_1'' ''job_A''
                             ''Execute job_A operation'' 3 100)]\<rparr>, None)"
proof -
  have h: "bids (at_deadline supervisor_001 job_1 100 busy_reply) = []"
    by (simp add: example_defs busy_reply_def)
  show ?thesis using no_bids_fails [OF h, of 103] h
    by (simp add: supervisor_001_def init_supervisor_def job_1_def)
qed

section \<open>Facts about the Machine\<close>

lemma machine_1_eq: "machine_1 =
     \<lparr>machine_id = ''machine_1'', capabilities = [''job_A'' \<mapsto> 5, ''job_B'' \<mapsto> 3],
      busy = False, machine_current_job = JNull,
      current_job_end = 0, jobs_bid = 0, jobs_won = 0, jobs_completed = 0, jobs_rejected = 0,
      threads = [], published = [], machine_client = wildcard_client\<rparr>"
  by (simp add: machine_1_def init_machine_def)


subsection \<open>A CFP at a busy Machine\<close>




subsection \<open>Awards\<close>

text \<open>
  Claim C6 fails on the code as it is stated. \<open>machine_1\<close> has just started: it has
  sent no bid and published nothing. An Award for \<open>job_9\<close> that names it as the target
  is accepted all the same: the Machine becomes busy with \<open>job_9\<close>, counts a job won
  and starts the execution. \<^verbatim>\<open>_handle_award\<close> compares the machine id only; the
  Machine keeps no record of the jobs it bid on.
\<close>

theorem award_without_bid_is_accepted:
  "jobs_bid machine_1 = 0 \<and> published machine_1 = [] \<and> \<not> busy machine_1 \<and>
   machine_on_message machine_1
     (award_payload ''supervisor_001'' ''job_9'' ''job_A'' ''machine_1'' 100) 101 =
   (machine_1\<lparr>jobs_won := 1, busy := True, machine_current_job := JStr ''job_9'',
      threads := [\<lparr>exec_job_id = JStr ''job_9'', exec_job_type = JStr ''job_A'',
                   execution_time = 5, exec_supervisor_id = JStr ''supervisor_001''\<rparr>]\<rparr>, None)"
  by (simp add: machine_1_eq)
     (simp add: machine_on_message_def handle_award_def award_payload_def dict_get_def Let_def)

text \<open>
  Claim C6 as amended: for every Award message received by a Machine, if the award's
  target machine id differs from the Machine's own id, the Machine ignores it: the
  handler ends without an exception, no message is published and every field of the
  state is unchanged.
\<close>

theorem award_for_other_machine_ignored:
  assumes "dict_get data ''type'' = JStr ''award''"
    and "dict_get data ''machine_id'' \<noteq> JStr (machine_id m)"
  shows "machine_on_message m (Json (JObj data)) now = (m, None)"
  using assms by (simp add: machine_on_message_def handle_award_def)

text \<open>An instance: the Award of \<open>job_1\<close> to \<open>machine_2\<close> reaches \<open>machine_1\<close>.\<close>

theorem award_for_other_machine_ignored_witness:
  "machine_on_message machine_1
     (award_payload ''supervisor_001'' ''job_1'' ''job_A'' ''machine_2'' 103) 104 =
   (machine_1, None)"
  unfolding award_payload_def
  by (rule award_for_other_machine_ignored) (simp_all add: dict_get_def machine_1_eq)




subsection \<open>Payloads that are not well-formed messages\<close>




subsection \<open>A CFP at an idle Machine\<close>




subsection \<open>An Award for a job type the Machine does not know\<close>



end
